theory Spec2Isabelle
  imports Main
begin

section \<open>The hackathon bot of \<^verbatim>\<open>src/bot.ts\<close>: validators, flows and the message handler\<close>

text \<open>
  The class \<^verbatim>\<open>EchoBot\<close> drives three questionnaires (RSVP, cancel, invite a friend) over a
  conversation flow object and a user profile object. The model follows the source function by
  function. JavaScript values that the code tests for (\<^verbatim>\<open>undefined\<close>, \<^verbatim>\<open>null\<close>, a string) are
  a datatype; strings are \<^typ>\<open>string\<close>, one \<^typ>\<open>char\<close> standing for one code unit below 256.
\<close>

subsection \<open>JavaScript values and string primitives\<close>

datatype jsval = Undefined | Null | Str string

text \<open>Truthiness, as \<^verbatim>\<open>&&\<close>, \<^verbatim>\<open>||\<close> and \<^verbatim>\<open>if (value)\<close> read it: the empty string is falsy.\<close>

fun truthy :: "jsval \<Rightarrow> bool" where
  "truthy Undefined = False"
| "truthy Null = False"
| "truthy (Str s) = (s \<noteq> [])"

text \<open>\<^verbatim>\<open>ToString\<close>, as a template literal and \<^verbatim>\<open>parseInt\<close> apply it.\<close>

fun toString :: "jsval \<Rightarrow> string" where
  "toString Undefined = ''undefined''"
| "toString Null = ''null''"
| "toString (Str s) = s"

text \<open>
  The white space and line terminators that \<^verbatim>\<open>String.prototype.trim\<close> and \<^verbatim>\<open>parseInt\<close> strip,
  among the code units below 256: tab, line feed, vertical tab, form feed, carriage return,
  space and no-break space.
\<close>

definition isWhiteSpace :: "char \<Rightarrow> bool" where
  "isWhiteSpace c =
     (c = CHR 0x09 \<or> c = CHR 0x0A \<or> c = CHR 0x0B \<or> c = CHR 0x0C \<or> c = CHR 0x0D \<or>
      c = CHR 0x20 \<or> c = CHR 0xA0)"

definition trim :: "string \<Rightarrow> string" where
  "trim s = rev (dropWhile isWhiteSpace (rev (dropWhile isWhiteSpace s)))"

text \<open>
  \<^verbatim>\<open>parseInt(value)\<close> with no radix: leading white space is skipped, a sign is read, a
  \<^verbatim>\<open>0x\<close> prefix selects radix 16 (radix 10 otherwise), and the longest prefix of digits of that
  radix is the number; with no digit the result is \<^verbatim>\<open>NaN\<close>, here \<^const>\<open>None\<close>. The number is an
  unbounded \<^typ>\<open>int\<close>: a JavaScript double holds every integer up to \<open>2^53\<close> exactly and rounds
  monotonically above, so the comparisons with 18 and 120 below come out the same.
\<close>

definition digitVal :: "char \<Rightarrow> nat option" where
  "digitVal c =
     (let n = (of_char c :: nat) in
      if 48 \<le> n \<and> n \<le> 57 then Some (n - 48)
      else if 97 \<le> n \<and> n \<le> 122 then Some (n - 87)
      else if 65 \<le> n \<and> n \<le> 90 then Some (n - 55)
      else None)"

fun radixDigits :: "nat \<Rightarrow> string \<Rightarrow> nat list" where
  "radixDigits r [] = []"
| "radixDigits r (c # cs) =
     (case digitVal c of
        None \<Rightarrow> []
      | Some d \<Rightarrow> if d < r then d # radixDigits r cs else [])"

definition stripSign :: "string \<Rightarrow> int \<times> string" where
  "stripSign s =
     (case s of
        [] \<Rightarrow> (1, [])
      | c # cs \<Rightarrow>
          if c = CHR ''-'' then (- 1, cs)
          else if c = CHR ''+'' then (1, cs)
          else (1, s))"

definition stripPrefix :: "string \<Rightarrow> nat \<times> string" where
  "stripPrefix s =
     (if take 2 s = ''0x'' \<or> take 2 s = ''0X'' then (16, drop 2 s) else (10, s))"

definition parseInt :: "string \<Rightarrow> int option" where
  "parseInt s =
     (case stripSign (dropWhile isWhiteSpace s) of
        (sign, s1) \<Rightarrow>
          (case stripPrefix s1 of
             (r, s2) \<Rightarrow>
               (case radixDigits r s2 of
                  [] \<Rightarrow> None
                | d # ds \<Rightarrow> Some (sign * int (foldl (\<lambda>a x. a * r + x) 0 (d # ds))))))"

subsection \<open>Validators\<close>

text \<open>A validator returns \<^verbatim>\<open>{ success: true, ... }\<close> or \<^verbatim>\<open>{ success: false, message }\<close>.\<close>

datatype 'a result = Success 'a | Failure string

text \<open>
  \<^verbatim>\<open>validateString\<close>: \<^verbatim>\<open>const string = input && input.trim()\<close> is \<^verbatim>\<open>input\<close> itself when
  \<^verbatim>\<open>input\<close> is falsy (\<^verbatim>\<open>undefined\<close>, \<^verbatim>\<open>null\<close>, the empty string) and the trimmed string
  otherwise; the result is a success unless that value is \<^verbatim>\<open>undefined\<close>.
\<close>

definition andTrim :: "jsval \<Rightarrow> jsval" where
  "andTrim input = (if truthy input then Str (trim (toString input)) else input)"

definition validateString :: "jsval \<Rightarrow> jsval result" where
  "validateString input =
     (let string = andTrim input in
      if string \<noteq> Undefined then Success string
      else Failure ''Please enter a name that contains at least one character.'')"

text \<open>
  The number recognizer is an external library: it is a parameter of the model. It either
  throws or returns a list of candidates. Each candidate has a \<^verbatim>\<open>resolution\<close> dictionary, as
  the library's type of results declares, and is given here by its \<^verbatim>\<open>resolution.value\<close>
  (\<^const>\<open>Undefined\<close> when the dictionary has no such entry).
\<close>

datatype recognition = Threw | Results "jsval list"

type_synonym recognizer = "jsval \<Rightarrow> recognition"

text \<open>
  The callback of \<^verbatim>\<open>results.forEach\<close>, as a function of the variable \<^verbatim>\<open>output\<close> it assigns
  (\<^const>\<open>None\<close> is \<^verbatim>\<open>undefined\<close>). Its \<^verbatim>\<open>return\<close> ends this call of the callback only, so
  \<^verbatim>\<open>forEach\<close> goes on to the next candidate: the loop is a left fold over the whole list.
\<close>

definition ageCallback :: "int result option \<Rightarrow> jsval \<Rightarrow> int result option" where
  "ageCallback output v =
     (if truthy v then
        (case parseInt (toString v) of
           None \<Rightarrow> output
         | Some n \<Rightarrow> if 18 \<le> n \<and> n \<le> 120 then Some (Success n) else output)
      else output)"

definition validateAge :: "recognizer \<Rightarrow> jsval \<Rightarrow> int result" where
  "validateAge recognizeNumber input =
     (case recognizeNumber input of
        Threw \<Rightarrow>
          Failure ''I'm sorry, I could not interpret that as an age. Please enter an age between 18 and 120.''
      | Results results \<Rightarrow>
          (case foldl ageCallback None results of
             Some output \<Rightarrow> output
           | None \<Rightarrow> Failure ''Please enter an age between 18 and 120.''))"

subsection \<open>Conversation flow, profile and outbound activities\<close>

text \<open>
  The constants \<^verbatim>\<open>question\<close>, \<^verbatim>\<open>friendQuestion\<close>, \<^verbatim>\<open>cancelQuestion\<close> and \<^verbatim>\<open>action\<close> of the source
  are enumerations of strings. The \<^verbatim>\<open>none\<close> member of each of them is the same string
  \<^verbatim>\<open>'NONE'\<close>, which is why the source may assign \<^verbatim>\<open>question.none\<close> to
  \<^verbatim>\<open>flow.lastQuestionFriend\<close> and \<^verbatim>\<open>flow.lastQuestionCancel\<close>.
\<close>

datatype question = question_none | question_age | question_name | question_school

datatype friendQuestion = friendQuestion_none | friendQuestion_name | friendQuestion_email

datatype cancelQuestion = cancelQuestion_none | cancelQuestion_name

datatype action = action_none | action_rsvp | action_cancel | action_friend

record flow =
  lastQuestionAsked :: question
  lastQuestionFriend :: friendQuestion
  lastQuestionCancel :: cancelQuestion
  action :: action

text \<open>
  The profile object: the six properties the code ever assigns, each absent (\<^const>\<open>None\<close>) or
  present. \<^verbatim>\<open>firenName\<close> is the source's spelling.
\<close>

record profile =
  name :: "jsval option"
  age :: "int option"
  school :: "jsval option"
  firenName :: "jsval option"
  email :: "jsval option"
  cancelName :: "jsval option"

definition emptyProfile :: profile where
  "emptyProfile =
     \<lparr>name = None, age = None, school = None, firenName = None, email = None,
      cancelName = None\<rparr>"

text \<open>
  Objects live in a store and variables hold references: \<^verbatim>\<open>profile.name = x\<close> updates the
  object that \<^verbatim>\<open>profile\<close> refers to, while \<^verbatim>\<open>profile = {}\<close> allocates a new object and
  rebinds the local variable, leaving the object of the caller as it is.
\<close>

type_synonym heap = "profile list"

type_synonym ref = nat

definition alloc :: "heap \<Rightarrow> profile \<Rightarrow> heap \<times> ref" where
  "alloc h obj = (h @ [obj], length h)"

text \<open>What \<^verbatim>\<open>context.sendActivity\<close> is called with.\<close>

datatype attachment = Attachment string string string

datatype activity =
    Text string
  | Reply string "attachment list"
  | HeroCard string "(string \<times> string) list"

definition sendHeroCard :: activity where
  "sendHeroCard =
     HeroCard ''What do you want to do ?''
       [(''1. RSVP'', ''RSVP''), (''2. Cancel RSVP'', ''Cancel RSVP''),
        (''3. Invite a friend'', ''Invite a friend'')]"

definition getInternetAttachment :: attachment where
  "getInternetAttachment =
     Attachment ''architecture-resize.png'' ''image/png''
       ''https://docs.microsoft.com/en-us/bot-framework/media/how-it-works/architecture-resize.png''"

text \<open>Template literals: an absent property reads as \<^verbatim>\<open>undefined\<close>; a number prints in decimal.\<close>

fun showNat :: "nat \<Rightarrow> string" where
  "showNat n =
     (if n < 10 then [char_of (48 + n)] else showNat (n div 10) @ [char_of (48 + n mod 10)])"

declare showNat.simps [simp del]

definition showInt :: "int \<Rightarrow> string" where
  "showInt i = (if i < 0 then CHR ''-'' # showNat (nat (- i)) else showNat (nat i))"

definition template :: "jsval option \<Rightarrow> string" where
  "template x = (case x of None \<Rightarrow> ''undefined'' | Some v \<Rightarrow> toString v)"

definition templateNum :: "int option \<Rightarrow> string" where
  "templateNum x = (case x of None \<Rightarrow> ''undefined'' | Some n \<Rightarrow> showInt n)"

text \<open>\<^verbatim>\<open>result.message || "I'm sorry, I didn't understand that."\<close>\<close>

definition orDefault :: "string \<Rightarrow> string" where
  "orDefault message = (if message \<noteq> [] then message else ''I'm sorry, I didn't understand that.'')"

subsection \<open>The three flows\<close>

text \<open>
  Each flow takes the flow object, the store, the reference held by its parameter
  \<^verbatim>\<open>profile\<close> and the text of the turn, and returns the flow object, the store and the
  activities sent, in the order of the calls.
\<close>

definition fillOutRSVP ::
  "recognizer \<Rightarrow> flow \<Rightarrow> heap \<Rightarrow> ref \<Rightarrow> jsval \<Rightarrow> flow \<times> heap \<times> activity list" where
  "fillOutRSVP recognizeNumber fl h p input =
     (case lastQuestionAsked fl of
        question_none \<Rightarrow>
          (fl\<lparr>lastQuestionAsked := question_name\<rparr>, h,
           [Text ''In order to RSVP you need to give out some information. What is your name?''])
      | question_name \<Rightarrow>
          (case validateString input of
             Success s \<Rightarrow>
               (let h1 = h[p := (h ! p)\<lparr>name := Some s\<rparr>] in
                (fl\<lparr>lastQuestionAsked := question_age\<rparr>, h1,
                 [Text (''Welcome among us '' @ template (name (h1 ! p)) @ ''.''),
                  Text ''How old are you?'']))
           | Failure message \<Rightarrow> (fl, h, [Text (orDefault message)]))
      | question_age \<Rightarrow>
          (case validateAge recognizeNumber input of
             Success n \<Rightarrow>
               (let h1 = h[p := (h ! p)\<lparr>age := Some n\<rparr>] in
                (fl\<lparr>lastQuestionAsked := question_school\<rparr>, h1,
                 [Text (''I have your age as '' @ templateNum (age (h1 ! p)) @ ''.''),
                  Text ''What university are you from?'']))
           | Failure message \<Rightarrow> (fl, h, [Text (orDefault message)]))
      | question_school \<Rightarrow>
          (case validateString input of
             Success s \<Rightarrow>
               (let h1 = h[p := (h ! p)\<lparr>school := Some s\<rparr>];
                    sent =
                      (if school (h1 ! p) = Some (Str ''Stanford'') then
                         [Text ''I'm sorry, students from Stanford are not accepted. Nobody's perfect but it is still time to apply to Berkeley next year following this link: https://grad.berkeley.edu/admissions/apply/'']
                       else
                         [Text (''Amazing, so many people coming from '' @ template (school (h1 ! p)) @ ''.''),
                          Reply ''You can already take a look at the documentation here: https://docs.microsoft.com/en-us/azure/bot-service/bot-service-debug-emulator?view=azure-bot-service-4.0''
                            [getInternetAttachment],
                          Text (''Thanks for completing the RSVP '' @ template (name (h1 ! p)) @ ''.'')]);
                    fl1 = fl\<lparr>lastQuestionAsked := question_none, action := action_none\<rparr>
                in (case alloc h1 emptyProfile of
                      (h2, p1) \<Rightarrow> (fl1, h2, sent @ [sendHeroCard])))
           | Failure message \<Rightarrow> (fl, h, [Text (orDefault message)])))"

definition fillOutFriend :: "flow \<Rightarrow> heap \<Rightarrow> ref \<Rightarrow> jsval \<Rightarrow> flow \<times> heap \<times> activity list" where
  "fillOutFriend fl h p input =
     (case lastQuestionFriend fl of
        friendQuestion_none \<Rightarrow>
          (fl\<lparr>lastQuestionFriend := friendQuestion_name\<rparr>, h,
           [Text ''What is the name of your friend?''])
      | friendQuestion_name \<Rightarrow>
          (case validateString input of
             Success s \<Rightarrow>
               (let h1 = h[p := (h ! p)\<lparr>firenName := Some s\<rparr>] in
                (fl\<lparr>lastQuestionFriend := friendQuestion_email\<rparr>, h1,
                 [Text ''Great! What is your email address?'']))
           | Failure message \<Rightarrow> (fl, h, [Text (orDefault message)]))
      | friendQuestion_email \<Rightarrow>
          (case validateString input of
             Success s \<Rightarrow>
               (let h1 = h[p := (h ! p)\<lparr>email := Some s\<rparr>];
                    fl1 = fl\<lparr>lastQuestionFriend := friendQuestion_none, action := action_none\<rparr>
                in (case alloc h1 emptyProfile of
                      (h2, p1) \<Rightarrow>
                        (fl1, h2,
                         [Text ''Great, we'll have a lot of fun!'',
                          Text ''An email to v-dalhay@microsoft.com has been sent. You'll receive a response by email within 24 hours.'',
                          sendHeroCard])))
           | Failure message \<Rightarrow> (fl, h, [Text (orDefault message)])))"

definition cancelRSVP :: "flow \<Rightarrow> heap \<Rightarrow> ref \<Rightarrow> jsval \<Rightarrow> flow \<times> heap \<times> activity list" where
  "cancelRSVP fl h p input =
     (case lastQuestionCancel fl of
        cancelQuestion_none \<Rightarrow>
          (fl\<lparr>lastQuestionCancel := cancelQuestion_name\<rparr>, h,
           [Text ''What is your name to cancel your participation?''])
      | cancelQuestion_name \<Rightarrow>
          (case validateString input of
             Success s \<Rightarrow>
               (let h1 = h[p := (h ! p)\<lparr>cancelName := Some s\<rparr>];
                    fl1 = fl\<lparr>lastQuestionCancel := cancelQuestion_none, action := action_none\<rparr>
                in (case alloc h1 emptyProfile of
                      (h2, p1) \<Rightarrow> (fl1, h2, [Text ''Ok, let's cancel!'', sendHeroCard])))
           | Failure message \<Rightarrow> (fl, h, [Text (orDefault message)])))"

subsection \<open>The message handler\<close>

text \<open>
  \<^verbatim>\<open>actions.has(context.activity.text)\<close>: the text is one of the three action labels; the
  action it names is what \<^verbatim>\<open>flow.action = context.activity.text\<close> stores.
\<close>

definition actionOfText :: "jsval \<Rightarrow> action option" where
  "actionOfText text =
     (if text = Str ''RSVP'' then Some action_rsvp
      else if text = Str ''Cancel RSVP'' then Some action_cancel
      else if text = Str ''Invite a friend'' then Some action_friend
      else None)"

definition dispatch ::
  "recognizer \<Rightarrow> flow \<Rightarrow> heap \<Rightarrow> ref \<Rightarrow> jsval \<Rightarrow> flow \<times> heap \<times> activity list" where
  "dispatch recognizeNumber fl h p text =
     (case action fl of
        action_rsvp \<Rightarrow> fillOutRSVP recognizeNumber fl h p text
      | action_cancel \<Rightarrow> cancelRSVP fl h p text
      | action_friend \<Rightarrow> fillOutFriend fl h p text
      | action_none \<Rightarrow> (fl, h, []))"

definition onMessage ::
  "recognizer \<Rightarrow> flow \<Rightarrow> heap \<Rightarrow> ref \<Rightarrow> jsval \<Rightarrow> flow \<times> heap \<times> activity list" where
  "onMessage recognizeNumber fl h p text =
     (case actionOfText text of
        Some a \<Rightarrow>
          if action fl = action_none then dispatch recognizeNumber (fl\<lparr>action := a\<rparr>) h p text
          else (fl, h, [Text ''You need to finish the current action before doing another one!''])
      | None \<Rightarrow> dispatch recognizeNumber fl h p text)"

text \<open>
  One turn as the state accessors see it: \<^verbatim>\<open>this.userProfile.get(context, {})\<close> hands the
  handler a reference to the cached profile object, and \<^verbatim>\<open>saveChanges\<close> stores that same
  object after the turn. The store of the turn holds the cached object at reference 0.
\<close>

definition turn ::
  "recognizer \<Rightarrow> flow \<times> profile \<Rightarrow> jsval \<Rightarrow> (flow \<times> profile) \<times> activity list" where
  "turn recognizeNumber st text =
     (case onMessage recognizeNumber (fst st) [snd st] 0 text of
        (fl1, h1, sent) \<Rightarrow> ((fl1, h1 ! 0), sent))"

text \<open>A conversation: the turns in order, each starting from what the one before saved.\<close>

fun conversation ::
  "recognizer \<Rightarrow> flow \<times> profile \<Rightarrow> jsval list \<Rightarrow> (flow \<times> profile) \<times> activity list list" where
  "conversation recognizeNumber st [] = (st, [])"
| "conversation recognizeNumber st (text # texts) =
     (case turn recognizeNumber st text of
        (st1, sent) \<Rightarrow>
          (case conversation recognizeNumber st1 texts of
             (st2, sents) \<Rightarrow> (st2, sent # sents)))"

text \<open>The defaults of \<^verbatim>\<open>this.conversationFlow.get\<close> and \<^verbatim>\<open>this.userProfile.get\<close>.\<close>

definition initialFlow :: flow where
  "initialFlow =
     \<lparr>lastQuestionAsked = question_none, lastQuestionFriend = friendQuestion_none,
      lastQuestionCancel = cancelQuestion_none, action = action_none\<rparr>"

subsection \<open>Notions used in the statements\<close>

text \<open>
  The age that the callback of \<^const>\<open>validateAge\<close> records for one candidate, if it records
  any: the candidate's value is truthy, parses as an integer and lies between 18 and 120.
\<close>

definition candidateAge :: "jsval \<Rightarrow> int option" where
  "candidateAge v =
     (if truthy v then
        (case parseInt (toString v) of
           None \<Rightarrow> None
         | Some n \<Rightarrow> if 18 \<le> n \<and> n \<le> 120 then Some n else None)
      else None)"

text \<open>
  Two stand-ins for the external recognizer, for the concrete examples: one answers the texts
  of the examples with the decimal strings of the numbers they mention (and finds no number in
  any other text), the other always throws.
\<close>

definition sampleRecognizer :: recognizer where
  "sampleRecognizer text =
     (if text = Str ''17'' then Results [Str ''17'']
      else if text = Str ''18'' then Results [Str ''18'']
      else if text = Str ''25'' then Results [Str ''25'']
      else if text = Str ''120'' then Results [Str ''120'']
      else if text = Str ''121'' then Results [Str ''121'']
      else if text = Str ''twelve'' then Results [Str ''12'']
      else if text = Str ''twenty'' then Results [Str ''20'']
      else if text = Str ''20 or 30'' then Results [Str ''20'', Str ''30'']
      else Results [])"

definition throwingRecognizer :: recognizer where
  "throwingRecognizer text = Threw"

text \<open>The same text sent \<open>n\<close> times to one step function, each time on the state left before.\<close>

fun repeatTurn ::
  "(flow \<Rightarrow> heap \<Rightarrow> ref \<Rightarrow> jsval \<Rightarrow> flow \<times> heap \<times> activity list) \<Rightarrow> nat \<Rightarrow>
   flow \<Rightarrow> heap \<Rightarrow> ref \<Rightarrow> jsval \<Rightarrow> flow \<times> heap \<times> activity list list" where
  "repeatTurn step 0 fl h p text = (fl, h, [])"
| "repeatTurn step (Suc n) fl h p text =
     (case step fl h p text of
        (fl1, h1, sent) \<Rightarrow>
          (case repeatTurn step n fl1 h1 p text of
             (fl2, h2, sents) \<Rightarrow> (fl2, h2, sent # sents)))"

section \<open>Properties of the validators\<close>

lemma validateString_Undefined:
  "validateString Undefined = Failure ''Please enter a name that contains at least one character.''"
  by (simp add: validateString_def andTrim_def)

lemma validateString_Null: "validateString Null = Success Null"
  by (simp add: validateString_def andTrim_def)

lemma trim_Nil: "trim [] = []"
  by (simp add: trim_def)

lemma validateString_Str: "validateString (Str s) = Success (Str (trim s))"
  by (simp add: validateString_def andTrim_def trim_Nil)

lemma validateString_Failure_iff:
  "validateString input = Failure m \<longleftrightarrow>
     input = Undefined \<and> m = ''Please enter a name that contains at least one character.''"
  by (cases input) (auto simp: validateString_Undefined validateString_Null validateString_Str)

lemma ageCallback_candidateAge:
  "ageCallback out v = (case candidateAge v of None \<Rightarrow> out | Some n \<Rightarrow> Some (Success n))"
  by (simp add: ageCallback_def candidateAge_def split: option.splits)

lemma foldl_ageCallback_none:
  "list_all (\<lambda>d. candidateAge d = None) ds \<Longrightarrow> foldl ageCallback out ds = out"
  by (induction ds arbitrary: out) (simp_all add: ageCallback_candidateAge)

lemma foldl_ageCallback_last:
  assumes "candidateAge c = Some n" and "list_all (\<lambda>d. candidateAge d = None) ds"
  shows "foldl ageCallback out (cs @ c # ds) = Some (Success n)"
  using assms by (simp add: foldl_ageCallback_none ageCallback_candidateAge)

lemma foldl_ageCallback_Some:
  "foldl ageCallback None rs = Some out \<Longrightarrow> \<exists>n. out = Success n \<and> 18 \<le> n \<and> n \<le> 120"
proof (induction rs arbitrary: out rule: rev_induct)
  case Nil
  then show ?case by simp
next
  case (snoc r rs)
  then show ?case
    by (auto simp: ageCallback_candidateAge candidateAge_def split: option.splits if_splits)
qed

lemma validateAge_Failure_message:
  assumes "validateAge recognizeNumber input = Failure m"
  shows "m = ''I'm sorry, I could not interpret that as an age. Please enter an age between 18 and 120.'' \<or>
         m = ''Please enter an age between 18 and 120.''"
proof (cases "recognizeNumber input")
  case Threw
  with assms show ?thesis by (simp add: validateAge_def)
next
  case (Results rs)
  show ?thesis
  proof (cases "foldl ageCallback None rs")
    case None
    with Results assms show ?thesis by (simp add: validateAge_def)
  next
    case (Some out)
    from foldl_ageCallback_Some [OF Some] obtain n where "out = Success n" by blast
    with Results Some assms show ?thesis by (simp add: validateAge_def)
  qed
qed

lemmas parseInt_eval =
  parseInt_def stripSign_def stripPrefix_def digitVal_def isWhiteSpace_def

text \<open>
  C2. The claim: the text validator succeeds exactly when the trimmed input is non-empty, so
  that the empty string and a string of three spaces are rejected and \<open>"  Alice "\<close> gives
  \<open>"Alice"\<close>. The code tests \<^verbatim>\<open>string !== undefined\<close>, which holds for every string: on the
  empty string and on three spaces \<^const>\<open>validateString\<close> succeeds with the empty string,
  although its own failure message asks for at least one character. Only the third example
  comes out as claimed.
\<close>

theorem validateString_accepts_blank:
  "validateString (Str '''') = Success (Str '''') \<and>
   validateString (Str ''   '') = Success (Str '''') \<and>
   validateString (Str ''  Alice '') = Success (Str ''Alice'')"
  by (simp add: validateString_def andTrim_def trim_def isWhiteSpace_def)

text \<open>
  C3. The claim: the age validator returns the first candidate whose value lies in the range
  18 to 120. The \<^verbatim>\<open>return\<close> after the assignment to \<^verbatim>\<open>output\<close> leaves the callback, not the
  \<^verbatim>\<open>forEach\<close>, so a later candidate in range replaces the first: for the candidates 20 and 30
  the result is 30. The single-candidate examples of the claim come out as it says.
\<close>

theorem validateAge_takes_last_candidate:
  "validateAge sampleRecognizer (Str ''20 or 30'') = Success 30 \<and>
   validateAge sampleRecognizer (Str ''17'') = Failure ''Please enter an age between 18 and 120.'' \<and>
   validateAge sampleRecognizer (Str ''121'') = Failure ''Please enter an age between 18 and 120.'' \<and>
   validateAge sampleRecognizer (Str ''twelve'') = Failure ''Please enter an age between 18 and 120.'' \<and>
   validateAge sampleRecognizer (Str ''18'') = Success 18 \<and>
   validateAge sampleRecognizer (Str ''120'') = Success 120 \<and>
   validateAge sampleRecognizer (Str ''twenty'') = Success 20"
  by (simp add: validateAge_def sampleRecognizer_def ageCallback_def parseInt_eval)

text \<open>
  C6. The claim: when the recognizer throws, the age validator gives the same re-prompt as when
  no candidate qualifies. The \<^verbatim>\<open>catch\<close> branch has a message of its own, so the two outcomes
  differ.
\<close>

theorem validateAge_throw_differs_from_no_candidate:
  "validateAge throwingRecognizer (Str ''abc'') \<noteq> validateAge sampleRecognizer (Str ''abc'')"
  by (simp add: validateAge_def throwingRecognizer_def sampleRecognizer_def)

text \<open>
  C6, as the code has it. When the recognizer throws, the exception is caught: the age
  validator returns a failure with the message of the \<^verbatim>\<open>catch\<close> branch, which is the
  no-candidate message after a sentence of apology, and at the age question the RSVP flow
  sends that message and changes neither the flow nor the store.
\<close>

theorem validateAge_recognizer_throws:
  assumes "recognizeNumber input = Threw"
  shows "validateAge recognizeNumber input =
           Failure (''I'm sorry, I could not interpret that as an age. '' @
                    ''Please enter an age between 18 and 120.'') \<and>
         (lastQuestionAsked fl = question_age \<longrightarrow>
            fillOutRSVP recognizeNumber fl h p input =
              (fl, h,
               [Text ''I'm sorry, I could not interpret that as an age. Please enter an age between 18 and 120.'']))"
  using assms by (simp add: validateAge_def fillOutRSVP_def orDefault_def)

theorem validateAge_recognizer_throws_witness:
  "throwingRecognizer (Str ''abc'') = Threw \<and>
   validateAge throwingRecognizer (Str ''abc'') =
     Failure ''I'm sorry, I could not interpret that as an age. Please enter an age between 18 and 120.'' \<and>
   lastQuestionAsked (initialFlow\<lparr>lastQuestionAsked := question_age, action := action_rsvp\<rparr>) = question_age \<and>
   fillOutRSVP throwingRecognizer
       (initialFlow\<lparr>lastQuestionAsked := question_age, action := action_rsvp\<rparr>)
       [emptyProfile] 0 (Str ''abc'') =
     (initialFlow\<lparr>lastQuestionAsked := question_age, action := action_rsvp\<rparr>, [emptyProfile],
      [Text ''I'm sorry, I could not interpret that as an age. Please enter an age between 18 and 120.''])"
proof -
  have threw: "throwingRecognizer (Str ''abc'') = Threw"
    by (simp add: throwingRecognizer_def)
  show ?thesis
    using threw
      validateAge_recognizer_throws [of throwingRecognizer "Str ''abc''"
        "initialFlow\<lparr>lastQuestionAsked := question_age, action := action_rsvp\<rparr>"
        "[emptyProfile]" 0]
    by simp
qed

text \<open>
  C9. Only \<^verbatim>\<open>undefined\<close> makes \<^const>\<open>validateString\<close> fail (\<^verbatim>\<open>null\<close> does not: it succeeds with
  \<^verbatim>\<open>null\<close>). Every string, the empty one and those of white space included, succeeds with the
  trimmed string, so on a string each text question (name and school of the RSVP, name and
  email of the friend, name of the cancellation) moves its flow on and never re-prompts.
\<close>

theorem validateString_fails_only_without_text:
  "validateString (Str s) = Success (Str (trim s)) \<and>
   validateString (Str '''') = Success (Str '''') \<and>
   (validateString input = Failure m \<longrightarrow> input = Undefined \<or> input = Null) \<and>
   (lastQuestionAsked fl = question_name \<longrightarrow>
      lastQuestionAsked (fst (fillOutRSVP recognizeNumber fl h p (Str s))) = question_age) \<and>
   (lastQuestionAsked fl = question_school \<longrightarrow>
      lastQuestionAsked (fst (fillOutRSVP recognizeNumber fl h p (Str s))) = question_none) \<and>
   (lastQuestionFriend fl = friendQuestion_name \<longrightarrow>
      lastQuestionFriend (fst (fillOutFriend fl h p (Str s))) = friendQuestion_email) \<and>
   (lastQuestionFriend fl = friendQuestion_email \<longrightarrow>
      lastQuestionFriend (fst (fillOutFriend fl h p (Str s))) = friendQuestion_none) \<and>
   (lastQuestionCancel fl = cancelQuestion_name \<longrightarrow>
      lastQuestionCancel (fst (cancelRSVP fl h p (Str s))) = cancelQuestion_none)"
  by (simp add: validateString_Str validateString_Failure_iff trim_Nil fillOutRSVP_def
      fillOutFriend_def cancelRSVP_def alloc_def Let_def)

theorem validateString_fails_only_without_text_witness:
  "validateString (Str ''   '') = Success (Str '''') \<and>
   validateString Undefined = Failure ''Please enter a name that contains at least one character.'' \<and>
   lastQuestionAsked (fst (fillOutRSVP sampleRecognizer
      (initialFlow\<lparr>lastQuestionAsked := question_name\<rparr>) [emptyProfile] 0 (Str ''   ''))) = question_age \<and>
   lastQuestionAsked (fst (fillOutRSVP sampleRecognizer
      (initialFlow\<lparr>lastQuestionAsked := question_school\<rparr>) [emptyProfile] 0 (Str ''   ''))) = question_none \<and>
   lastQuestionFriend (fst (fillOutFriend
      (initialFlow\<lparr>lastQuestionFriend := friendQuestion_name\<rparr>) [emptyProfile] 0 (Str ''   ''))) = friendQuestion_email \<and>
   lastQuestionFriend (fst (fillOutFriend
      (initialFlow\<lparr>lastQuestionFriend := friendQuestion_email\<rparr>) [emptyProfile] 0 (Str ''   ''))) = friendQuestion_none \<and>
   lastQuestionCancel (fst (cancelRSVP
      (initialFlow\<lparr>lastQuestionCancel := cancelQuestion_name\<rparr>) [emptyProfile] 0 (Str ''   ''))) = cancelQuestion_none"
proof -
  have f: "validateString Undefined = Failure ''Please enter a name that contains at least one character.''"
    by (simp add: validateString_def andTrim_def)
  have t: "trim ''   '' = ''''"
    by (simp add: trim_def isWhiteSpace_def)
  note w = validateString_fails_only_without_text [where s = "''   ''" and input = Undefined
      and m = "''Please enter a name that contains at least one character.''"
      and recognizeNumber = sampleRecognizer and h = "[emptyProfile]" and p = 0]
  show ?thesis
    using f t
      w [where fl = "initialFlow\<lparr>lastQuestionAsked := question_name\<rparr>"]
      w [where fl = "initialFlow\<lparr>lastQuestionAsked := question_school\<rparr>"]
      w [where fl = "initialFlow\<lparr>lastQuestionFriend := friendQuestion_name\<rparr>"]
      w [where fl = "initialFlow\<lparr>lastQuestionFriend := friendQuestion_email\<rparr>"]
      w [where fl = "initialFlow\<lparr>lastQuestionCancel := cancelQuestion_name\<rparr>"]
    by simp
qed

text \<open>
  C10. A candidate in range overwrites whatever \<^verbatim>\<open>output\<close> held, and the loop visits every
  candidate: the result of \<^const>\<open>validateAge\<close> is the age of the last candidate in range. In
  particular, when all the candidates are in range it is the age of the last one.
\<close>

theorem validateAge_last_qualifying_wins:
  "(candidateAge c = Some n \<longrightarrow> ageCallback out c = Some (Success n)) \<and>
   (recognizeNumber input = Results (cs @ c # ds) \<and> candidateAge c = Some n \<and>
    list_all (\<lambda>d. candidateAge d = None) ds \<longrightarrow>
      validateAge recognizeNumber input = Success n) \<and>
   (recognizeNumber input = Results results \<and> results \<noteq> [] \<and>
    list_all (\<lambda>d. candidateAge d \<noteq> None) results \<and> candidateAge (last results) = Some n \<longrightarrow>
      validateAge recognizeNumber input = Success n)"
proof (intro conjI impI)
  assume "candidateAge c = Some n"
  then show "ageCallback out c = Some (Success n)"
    by (simp add: ageCallback_candidateAge)
next
  assume a: "recognizeNumber input = Results (cs @ c # ds) \<and> candidateAge c = Some n \<and>
    list_all (\<lambda>d. candidateAge d = None) ds"
  then have "foldl ageCallback None (cs @ c # ds) = Some (Success n)"
    by (intro foldl_ageCallback_last) simp_all
  with a show "validateAge recognizeNumber input = Success n"
    by (simp add: validateAge_def)
next
  assume a: "recognizeNumber input = Results results \<and> results \<noteq> [] \<and>
    list_all (\<lambda>d. candidateAge d \<noteq> None) results \<and> candidateAge (last results) = Some n"
  then have "results = butlast results @ last results # []"
    by simp
  then have "foldl ageCallback None results = Some (Success n)"
    using a foldl_ageCallback_last [of "last results" n "[]" None "butlast results"] by simp
  with a show "validateAge recognizeNumber input = Success n"
    by (simp add: validateAge_def)
qed

theorem validateAge_last_qualifying_wins_witness:
  "candidateAge (Str ''30'') = Some 30 \<and>
   ageCallback (Some (Success 20)) (Str ''30'') = Some (Success 30) \<and>
   sampleRecognizer (Str ''20 or 30'') = Results ([Str ''20''] @ Str ''30'' # []) \<and>
   list_all (\<lambda>d. candidateAge d = None) [] \<and>
   list_all (\<lambda>d. candidateAge d \<noteq> None) [Str ''20'', Str ''30''] \<and>
   last [Str ''20'', Str ''30''] = Str ''30'' \<and>
   validateAge sampleRecognizer (Str ''20 or 30'') = Success 30"
proof -
  have c20: "candidateAge (Str ''20'') = Some 20"
    by (simp add: candidateAge_def parseInt_eval)
  have c30: "candidateAge (Str ''30'') = Some 30"
    by (simp add: candidateAge_def parseInt_eval)
  have r: "sampleRecognizer (Str ''20 or 30'') = Results [Str ''20'', Str ''30'']"
    by (simp add: sampleRecognizer_def)
  show ?thesis
    using c20 c30 r
      validateAge_last_qualifying_wins [of "Str ''30''" 30 "Some (Success 20)" sampleRecognizer
        "Str ''20 or 30''" "[Str ''20'']" "[]" "[Str ''20'', Str ''30'']"]
    by simp
qed

section \<open>Properties of the flows and of the message handler\<close>

lemma actionOfText_label:
  "text = Str ''RSVP'' \<or> text = Str ''Cancel RSVP'' \<or> text = Str ''Invite a friend'' \<Longrightarrow>
   \<exists>a. actionOfText text = Some a"
  by (auto simp: actionOfText_def)

lemma repeatTurn_fixed:
  assumes "step fl h p text = (fl, h, sent)"
  shows "repeatTurn step n fl h p text = (fl, h, replicate n sent)"
  using assms by (induction n) simp_all

lemma validateAge_Failure_nonempty:
  "validateAge recognizeNumber input = Failure m \<Longrightarrow> orDefault m = m"
  by (drule validateAge_Failure_message) (auto simp: orDefault_def)

lemma validateString_Failure_nonempty:
  "validateString input = Failure m \<Longrightarrow> orDefault m = m"
  by (auto simp: validateString_Failure_iff orDefault_def)

lemmas flow_eval =
  turn_def onMessage_def dispatch_def actionOfText_def fillOutRSVP_def fillOutFriend_def
  cancelRSVP_def alloc_def Let_def validateString_def andTrim_def trim_def isWhiteSpace_def
  validateAge_def sampleRecognizer_def ageCallback_def parseInt_eval orDefault_def
  initialFlow_def emptyProfile_def

text \<open>
  C1. The claim: once the last question of a flow is answered, the profile that the caller sees
  is empty. The flows end with \<^verbatim>\<open>profile = {}\<close>, which rebinds their parameter to a new
  object; the cached profile object, the one that is saved after the turn, keeps every field
  written during the flow, in the rejection branch of the RSVP as well. Four conversations
  from the initial state, with the flow and the profile that the last turn leaves.
\<close>

theorem profile_survives_completion:
  "fst (conversation sampleRecognizer (initialFlow, emptyProfile)
          [Str ''RSVP'', Str ''Alice'', Str ''25'', Str ''Stanford'']) =
     (initialFlow,
      \<lparr>name = Some (Str ''Alice''), age = Some 25, school = Some (Str ''Stanford''),
       firenName = None, email = None, cancelName = None\<rparr>) \<and>
   fst (conversation sampleRecognizer (initialFlow, emptyProfile)
          [Str ''RSVP'', Str ''Alice'', Str ''25'', Str ''MIT'']) =
     (initialFlow,
      \<lparr>name = Some (Str ''Alice''), age = Some 25, school = Some (Str ''MIT''),
       firenName = None, email = None, cancelName = None\<rparr>) \<and>
   fst (conversation sampleRecognizer (initialFlow, emptyProfile)
          [Str ''Invite a friend'', Str ''Bob'', Str ''bob@x.com'']) =
     (initialFlow,
      \<lparr>name = None, age = None, school = None, firenName = Some (Str ''Bob''),
       email = Some (Str ''bob@x.com''), cancelName = None\<rparr>) \<and>
   fst (conversation sampleRecognizer (initialFlow, emptyProfile)
          [Str ''Cancel RSVP'', Str ''Alice'']) =
     (initialFlow,
      \<lparr>name = None, age = None, school = None, firenName = None, email = None,
       cancelName = Some (Str ''Alice'')\<rparr>)"
  by (simp add: flow_eval)

text \<open>
  C4. When the text is one of the three action labels and an action is active, the handler
  sends the conflict message and nothing else, and returns before the dispatch to the flows:
  the flow object (the active action and the three question counters), the store and the
  saved profile are the ones it was given.
\<close>

theorem onMessage_rejects_second_action:
  assumes "text = Str ''RSVP'' \<or> text = Str ''Cancel RSVP'' \<or> text = Str ''Invite a friend''"
    and "action fl \<noteq> action_none"
  shows "onMessage recognizeNumber fl h p text =
           (fl, h, [Text ''You need to finish the current action before doing another one!'']) \<and>
         turn recognizeNumber (fl, pr) text =
           ((fl, pr), [Text ''You need to finish the current action before doing another one!''])"
proof -
  from assms(1) obtain a where "actionOfText text = Some a"
    using actionOfText_label by blast
  with assms(2) have "onMessage recognizeNumber fl h p text =
      (fl, h, [Text ''You need to finish the current action before doing another one!''])" for h p
    by (simp add: onMessage_def)
  then show ?thesis
    by (simp add: turn_def)
qed

theorem onMessage_rejects_second_action_witness:
  "action (initialFlow\<lparr>lastQuestionAsked := question_age, action := action_rsvp\<rparr>) \<noteq> action_none \<and>
   onMessage sampleRecognizer (initialFlow\<lparr>lastQuestionAsked := question_age, action := action_rsvp\<rparr>)
       [emptyProfile\<lparr>name := Some (Str ''Alice'')\<rparr>] 0 (Str ''Cancel RSVP'') =
     (initialFlow\<lparr>lastQuestionAsked := question_age, action := action_rsvp\<rparr>,
      [emptyProfile\<lparr>name := Some (Str ''Alice'')\<rparr>],
      [Text ''You need to finish the current action before doing another one!'']) \<and>
   turn sampleRecognizer
       (initialFlow\<lparr>lastQuestionAsked := question_age, action := action_rsvp\<rparr>,
        emptyProfile\<lparr>name := Some (Str ''Alice'')\<rparr>) (Str ''Cancel RSVP'') =
     ((initialFlow\<lparr>lastQuestionAsked := question_age, action := action_rsvp\<rparr>,
       emptyProfile\<lparr>name := Some (Str ''Alice'')\<rparr>),
      [Text ''You need to finish the current action before doing another one!''])"
  using onMessage_rejects_second_action [of "Str ''Cancel RSVP''"
      "initialFlow\<lparr>lastQuestionAsked := question_age, action := action_rsvp\<rparr>"
      sampleRecognizer "[emptyProfile\<lparr>name := Some (Str ''Alice'')\<rparr>]" 0
      "emptyProfile\<lparr>name := Some (Str ''Alice'')\<rparr>"]
  by (simp add: initialFlow_def)

text \<open>
  C5. The school question of the RSVP flow, on an answer that \<^const>\<open>validateString\<close> accepts
  with the value \<open>s\<close>: when \<open>s\<close> is \<open>Stanford\<close> the rejection message is the only message
  before the menu; otherwise the acceptance message, the reply with the attachment and the
  completion message are sent before it. In both branches \<^const>\<open>lastQuestionAsked\<close> and
  \<^const>\<open>action\<close> are reset to none and the menu (\<^const>\<open>sendHeroCard\<close>) comes last.
\<close>

theorem fillOutRSVP_school_answer:
  assumes "lastQuestionAsked fl = question_school"
    and "validateString input = Success s"
    and "p < length h"
  shows "fillOutRSVP recognizeNumber fl h p input =
     (fl\<lparr>lastQuestionAsked := question_none, action := action_none\<rparr>,
      h[p := (h ! p)\<lparr>school := Some s\<rparr>] @ [emptyProfile],
      (if s = Str ''Stanford'' then
         [Text ''I'm sorry, students from Stanford are not accepted. Nobody's perfect but it is still time to apply to Berkeley next year following this link: https://grad.berkeley.edu/admissions/apply/'']
       else
         [Text (''Amazing, so many people coming from '' @ toString s @ ''.''),
          Reply ''You can already take a look at the documentation here: https://docs.microsoft.com/en-us/azure/bot-service/bot-service-debug-emulator?view=azure-bot-service-4.0''
            [getInternetAttachment],
          Text (''Thanks for completing the RSVP '' @ template (name (h ! p)) @ ''.'')]) @
      [sendHeroCard])"
  using assms by (simp add: fillOutRSVP_def alloc_def Let_def template_def)

theorem fillOutRSVP_school_answer_witness:
  "validateString (Str '' Stanford '') = Success (Str ''Stanford'') \<and>
   validateString (Str ''MIT'') = Success (Str ''MIT'') \<and>
   lastQuestionAsked (initialFlow\<lparr>lastQuestionAsked := question_school, action := action_rsvp\<rparr>) =
     question_school \<and>
   (0::nat) < length [emptyProfile\<lparr>name := Some (Str ''Alice''), age := Some 25\<rparr>] \<and>
   fillOutRSVP sampleRecognizer
       (initialFlow\<lparr>lastQuestionAsked := question_school, action := action_rsvp\<rparr>)
       [emptyProfile\<lparr>name := Some (Str ''Alice''), age := Some 25\<rparr>] 0 (Str '' Stanford '') =
     (initialFlow,
      [emptyProfile\<lparr>name := Some (Str ''Alice''), age := Some 25, school := Some (Str ''Stanford'')\<rparr>,
       emptyProfile],
      [Text ''I'm sorry, students from Stanford are not accepted. Nobody's perfect but it is still time to apply to Berkeley next year following this link: https://grad.berkeley.edu/admissions/apply/'',
       sendHeroCard]) \<and>
   fillOutRSVP sampleRecognizer
       (initialFlow\<lparr>lastQuestionAsked := question_school, action := action_rsvp\<rparr>)
       [emptyProfile\<lparr>name := Some (Str ''Alice''), age := Some 25\<rparr>] 0 (Str ''MIT'') =
     (initialFlow,
      [emptyProfile\<lparr>name := Some (Str ''Alice''), age := Some 25, school := Some (Str ''MIT'')\<rparr>,
       emptyProfile],
      [Text ''Amazing, so many people coming from MIT.'',
       Reply ''You can already take a look at the documentation here: https://docs.microsoft.com/en-us/azure/bot-service/bot-service-debug-emulator?view=azure-bot-service-4.0''
         [getInternetAttachment],
       Text ''Thanks for completing the RSVP Alice.'',
       sendHeroCard])"
proof -
  have v1: "validateString (Str '' Stanford '') = Success (Str ''Stanford'')"
    by (simp add: validateString_def andTrim_def trim_def isWhiteSpace_def)
  have v2: "validateString (Str ''MIT'') = Success (Str ''MIT'')"
    by (simp add: validateString_def andTrim_def trim_def isWhiteSpace_def)
  have q: "lastQuestionAsked (initialFlow\<lparr>lastQuestionAsked := question_school, action := action_rsvp\<rparr>) =
     question_school"
    by simp
  have l: "(0::nat) < length [emptyProfile\<lparr>name := Some (Str ''Alice''), age := Some 25\<rparr>]"
    by simp
  show ?thesis
    using v1 v2
      fillOutRSVP_school_answer [OF q v1 l, of sampleRecognizer]
      fillOutRSVP_school_answer [OF q v2 l, of sampleRecognizer]
    by (simp add: initialFlow_def emptyProfile_def template_def)
qed

text \<open>
  C7. At each of the six questions (name, age and school of the RSVP, name and email of the
  friend, name of the cancellation), when the validator of the question rejects the text with
  the message \<open>m\<close>, sending that text \<open>n\<close> times leaves the flow object (counters and active
  action) and the store (the profile) as they were, and each of the \<open>n\<close> turns sends the
  single message \<open>m\<close>.
\<close>

theorem reprompt_is_idempotent:
  "(lastQuestionAsked fl = question_name \<and> validateString input = Failure m \<longrightarrow>
      repeatTurn (fillOutRSVP recognizeNumber) n fl h p input = (fl, h, replicate n [Text m])) \<and>
   (lastQuestionAsked fl = question_age \<and> validateAge recognizeNumber input = Failure m \<longrightarrow>
      repeatTurn (fillOutRSVP recognizeNumber) n fl h p input = (fl, h, replicate n [Text m])) \<and>
   (lastQuestionAsked fl = question_school \<and> validateString input = Failure m \<longrightarrow>
      repeatTurn (fillOutRSVP recognizeNumber) n fl h p input = (fl, h, replicate n [Text m])) \<and>
   (lastQuestionFriend fl = friendQuestion_name \<and> validateString input = Failure m \<longrightarrow>
      repeatTurn fillOutFriend n fl h p input = (fl, h, replicate n [Text m])) \<and>
   (lastQuestionFriend fl = friendQuestion_email \<and> validateString input = Failure m \<longrightarrow>
      repeatTurn fillOutFriend n fl h p input = (fl, h, replicate n [Text m])) \<and>
   (lastQuestionCancel fl = cancelQuestion_name \<and> validateString input = Failure m \<longrightarrow>
      repeatTurn cancelRSVP n fl h p input = (fl, h, replicate n [Text m]))"
  by (intro conjI impI repeatTurn_fixed)
    (auto simp: fillOutRSVP_def fillOutFriend_def cancelRSVP_def
      dest: validateAge_Failure_nonempty validateString_Failure_nonempty)

theorem reprompt_is_idempotent_witness:
  "validateString Undefined = Failure ''Please enter a name that contains at least one character.'' \<and>
   validateAge sampleRecognizer (Str ''17'') = Failure ''Please enter an age between 18 and 120.'' \<and>
   repeatTurn (fillOutRSVP sampleRecognizer) 3
       (initialFlow\<lparr>lastQuestionAsked := question_name, action := action_rsvp\<rparr>) [emptyProfile] 0 Undefined =
     (initialFlow\<lparr>lastQuestionAsked := question_name, action := action_rsvp\<rparr>, [emptyProfile],
      replicate 3 [Text ''Please enter a name that contains at least one character.'']) \<and>
   repeatTurn (fillOutRSVP sampleRecognizer) 3
       (initialFlow\<lparr>lastQuestionAsked := question_age, action := action_rsvp\<rparr>) [emptyProfile] 0 (Str ''17'') =
     (initialFlow\<lparr>lastQuestionAsked := question_age, action := action_rsvp\<rparr>, [emptyProfile],
      replicate 3 [Text ''Please enter an age between 18 and 120.'']) \<and>
   repeatTurn (fillOutRSVP sampleRecognizer) 3
       (initialFlow\<lparr>lastQuestionAsked := question_school, action := action_rsvp\<rparr>) [emptyProfile] 0 Undefined =
     (initialFlow\<lparr>lastQuestionAsked := question_school, action := action_rsvp\<rparr>, [emptyProfile],
      replicate 3 [Text ''Please enter a name that contains at least one character.'']) \<and>
   repeatTurn fillOutFriend 3
       (initialFlow\<lparr>lastQuestionFriend := friendQuestion_name, action := action_friend\<rparr>) [emptyProfile] 0 Undefined =
     (initialFlow\<lparr>lastQuestionFriend := friendQuestion_name, action := action_friend\<rparr>, [emptyProfile],
      replicate 3 [Text ''Please enter a name that contains at least one character.'']) \<and>
   repeatTurn fillOutFriend 3
       (initialFlow\<lparr>lastQuestionFriend := friendQuestion_email, action := action_friend\<rparr>) [emptyProfile] 0 Undefined =
     (initialFlow\<lparr>lastQuestionFriend := friendQuestion_email, action := action_friend\<rparr>, [emptyProfile],
      replicate 3 [Text ''Please enter a name that contains at least one character.'']) \<and>
   repeatTurn cancelRSVP 3
       (initialFlow\<lparr>lastQuestionCancel := cancelQuestion_name, action := action_cancel\<rparr>) [emptyProfile] 0 Undefined =
     (initialFlow\<lparr>lastQuestionCancel := cancelQuestion_name, action := action_cancel\<rparr>, [emptyProfile],
      replicate 3 [Text ''Please enter a name that contains at least one character.''])"
proof -
  have f: "validateString Undefined = Failure ''Please enter a name that contains at least one character.''"
    by (simp add: validateString_def andTrim_def)
  have a: "validateAge sampleRecognizer (Str ''17'') = Failure ''Please enter an age between 18 and 120.''"
    by (simp add: validateAge_def sampleRecognizer_def ageCallback_def parseInt_eval)
  note t = reprompt_is_idempotent [where input = Undefined
      and m = "''Please enter a name that contains at least one character.''"
      and recognizeNumber = sampleRecognizer and n = 3 and h = "[emptyProfile]" and p = 0]
  note g = reprompt_is_idempotent [where input = "Str ''17''"
      and m = "''Please enter an age between 18 and 120.''"
      and recognizeNumber = sampleRecognizer and n = 3 and h = "[emptyProfile]" and p = 0]
  show ?thesis
    using f a
      t [where fl = "initialFlow\<lparr>lastQuestionAsked := question_name, action := action_rsvp\<rparr>"]
      g [where fl = "initialFlow\<lparr>lastQuestionAsked := question_age, action := action_rsvp\<rparr>"]
      t [where fl = "initialFlow\<lparr>lastQuestionAsked := question_school, action := action_rsvp\<rparr>"]
      t [where fl = "initialFlow\<lparr>lastQuestionFriend := friendQuestion_name, action := action_friend\<rparr>"]
      t [where fl = "initialFlow\<lparr>lastQuestionFriend := friendQuestion_email, action := action_friend\<rparr>"]
      t [where fl = "initialFlow\<lparr>lastQuestionCancel := cancelQuestion_name, action := action_cancel\<rparr>"]
    by simp
qed

text \<open>
  C8. The profile object of the caller after one turn of a flow: it is unchanged on the turn
  that asks the first question and on a turn whose validator fails, and on a turn whose
  validator succeeds it differs from the object before in the one field of the question
  answered. No other object of the store is touched.
\<close>

theorem profile_written_only_on_success:
  assumes "p < length h"
  shows
    "fst (snd (fillOutRSVP recognizeNumber fl h p input)) ! p =
       (case lastQuestionAsked fl of
          question_none \<Rightarrow> h ! p
        | question_name \<Rightarrow>
            (case validateString input of
               Success s \<Rightarrow> (h ! p)\<lparr>name := Some s\<rparr>
             | Failure m \<Rightarrow> h ! p)
        | question_age \<Rightarrow>
            (case validateAge recognizeNumber input of
               Success n \<Rightarrow> (h ! p)\<lparr>age := Some n\<rparr>
             | Failure m \<Rightarrow> h ! p)
        | question_school \<Rightarrow>
            (case validateString input of
               Success s \<Rightarrow> (h ! p)\<lparr>school := Some s\<rparr>
             | Failure m \<Rightarrow> h ! p)) \<and>
     fst (snd (fillOutFriend fl h p input)) ! p =
       (case lastQuestionFriend fl of
          friendQuestion_none \<Rightarrow> h ! p
        | friendQuestion_name \<Rightarrow>
            (case validateString input of
               Success s \<Rightarrow> (h ! p)\<lparr>firenName := Some s\<rparr>
             | Failure m \<Rightarrow> h ! p)
        | friendQuestion_email \<Rightarrow>
            (case validateString input of
               Success s \<Rightarrow> (h ! p)\<lparr>email := Some s\<rparr>
             | Failure m \<Rightarrow> h ! p)) \<and>
     fst (snd (cancelRSVP fl h p input)) ! p =
       (case lastQuestionCancel fl of
          cancelQuestion_none \<Rightarrow> h ! p
        | cancelQuestion_name \<Rightarrow>
            (case validateString input of
               Success s \<Rightarrow> (h ! p)\<lparr>cancelName := Some s\<rparr>
             | Failure m \<Rightarrow> h ! p)) \<and>
     take (length h) (fst (snd (fillOutRSVP recognizeNumber fl h p input))) =
       h[p := fst (snd (fillOutRSVP recognizeNumber fl h p input)) ! p] \<and>
     take (length h) (fst (snd (fillOutFriend fl h p input))) =
       h[p := fst (snd (fillOutFriend fl h p input)) ! p] \<and>
     take (length h) (fst (snd (cancelRSVP fl h p input))) =
       h[p := fst (snd (cancelRSVP fl h p input)) ! p]"
  using assms
  by (simp add: fillOutRSVP_def fillOutFriend_def cancelRSVP_def alloc_def Let_def nth_append
      split: question.split friendQuestion.split cancelQuestion.split result.split)

theorem profile_written_only_on_success_witness:
  "(0::nat) < length [emptyProfile] \<and>
   fst (snd (fillOutRSVP sampleRecognizer
       (initialFlow\<lparr>lastQuestionAsked := question_name, action := action_rsvp\<rparr>)
       [emptyProfile] 0 (Str ''Alice''))) ! 0 = emptyProfile\<lparr>name := Some (Str ''Alice'')\<rparr> \<and>
   fst (snd (fillOutRSVP sampleRecognizer
       (initialFlow\<lparr>lastQuestionAsked := question_name, action := action_rsvp\<rparr>)
       [emptyProfile] 0 Undefined)) ! 0 = emptyProfile \<and>
   fst (snd (fillOutRSVP sampleRecognizer
       (initialFlow\<lparr>lastQuestionAsked := question_age, action := action_rsvp\<rparr>)
       [emptyProfile] 0 (Str ''17''))) ! 0 = emptyProfile \<and>
   fst (snd (fillOutRSVP sampleRecognizer
       (initialFlow\<lparr>lastQuestionAsked := question_age, action := action_rsvp\<rparr>)
       [emptyProfile] 0 (Str ''25''))) ! 0 = emptyProfile\<lparr>age := Some 25\<rparr> \<and>
   fst (snd (fillOutRSVP sampleRecognizer (initialFlow\<lparr>action := action_rsvp\<rparr>)
       [emptyProfile] 0 (Str ''RSVP''))) ! 0 = emptyProfile \<and>
   fst (snd (fillOutFriend
       (initialFlow\<lparr>lastQuestionFriend := friendQuestion_email, action := action_friend\<rparr>)
       [emptyProfile] 0 (Str ''bob@x.com''))) ! 0 = emptyProfile\<lparr>email := Some (Str ''bob@x.com'')\<rparr> \<and>
   fst (snd (cancelRSVP
       (initialFlow\<lparr>lastQuestionCancel := cancelQuestion_name, action := action_cancel\<rparr>)
       [emptyProfile] 0 (Str ''Alice''))) ! 0 = emptyProfile\<lparr>cancelName := Some (Str ''Alice'')\<rparr>"
proof -
  have l: "(0::nat) < length [emptyProfile]"
    by simp
  have v: "validateString (Str ''Alice'') = Success (Str ''Alice'')"
    "validateString (Str ''bob@x.com'') = Success (Str ''bob@x.com'')"
    "validateString Undefined = Failure ''Please enter a name that contains at least one character.''"
    by (simp_all add: validateString_def andTrim_def trim_def isWhiteSpace_def)
  have a: "validateAge sampleRecognizer (Str ''17'') = Failure ''Please enter an age between 18 and 120.''"
    "validateAge sampleRecognizer (Str ''25'') = Success 25"
    by (simp_all add: validateAge_def sampleRecognizer_def ageCallback_def parseInt_eval)
  note w = profile_written_only_on_success [OF l, where recognizeNumber = sampleRecognizer]
  show ?thesis
    using l v a
      w [where fl = "initialFlow\<lparr>lastQuestionAsked := question_name, action := action_rsvp\<rparr>"
          and input = "Str ''Alice''"]
      w [where fl = "initialFlow\<lparr>lastQuestionAsked := question_name, action := action_rsvp\<rparr>"
          and input = Undefined]
      w [where fl = "initialFlow\<lparr>lastQuestionAsked := question_age, action := action_rsvp\<rparr>"
          and input = "Str ''17''"]
      w [where fl = "initialFlow\<lparr>lastQuestionAsked := question_age, action := action_rsvp\<rparr>"
          and input = "Str ''25''"]
      w [where fl = "initialFlow\<lparr>action := action_rsvp\<rparr>" and input = "Str ''RSVP''"]
      w [where fl = "initialFlow\<lparr>lastQuestionFriend := friendQuestion_email, action := action_friend\<rparr>"
          and input = "Str ''bob@x.com''"]
      w [where fl = "initialFlow\<lparr>lastQuestionCancel := cancelQuestion_name, action := action_cancel\<rparr>"
          and input = "Str ''Alice''"]
    by (simp add: initialFlow_def)
qed

end
